theory Spec2Isabelle
  imports Main
begin

section \<open>JavaScript values, promises and a logical clock\<close>

text \<open>
  A response body is whatever JSON the endpoint sent, and \<open>setGifs\<close> stores whatever
  expression it is handed (axios types the body as \<open>any\<close>), so the result list is a
  JavaScript value. Keys of an object are unique; strings are lists of code units
  below 256.
\<close>

datatype jsval =
    JUndefined
  | JNull
  | JBool bool
  | JNum int
  | JStr string
  | JArr "jsval list"
  | JObj "(string \<times> jsval) list"

text \<open>The test \<open>if (v)\<close>.\<close>

fun truthy :: "jsval \<Rightarrow> bool" where
  "truthy JUndefined = False"
| "truthy JNull = False"
| "truthy (JBool b) = b"
| "truthy (JNum n) = (n \<noteq> 0)"
| "truthy (JStr s) = (s \<noteq> [])"
| "truthy (JArr xs) = True"
| "truthy (JObj kvs) = True"

text \<open>
  The property read \<open>v.data\<close>. The source reads it only from a value that passed
  \<open>if (v)\<close>, so the two values on which JavaScript would throw are never read.
\<close>

fun get_data :: "jsval \<Rightarrow> jsval" where
  "get_data (JObj kvs) = (case map_of kvs ''data'' of None \<Rightarrow> JUndefined | Some v \<Rightarrow> v)"
| "get_data v = JUndefined"

text \<open>\<open>Array.isArray\<close>: the shape the state type \<open>GifObject[]\<close> promises.\<close>

fun is_list :: "jsval \<Rightarrow> bool" where
  "is_list (JArr xs) = True"
| "is_list v = False"

text \<open>The axios response object; only its field \<open>data\<close> (the parsed body) is read.\<close>

record response =
  data :: jsval

text \<open>
  A promise is described by how it ends: fulfilled at a time (milliseconds on a logical
  clock) with a value, rejected at a time with an \<open>Error\<close> whose \<open>message\<close> is given, or
  never settled.
\<close>

datatype 'a promise =
    Resolved nat 'a
  | Rejected nat string
  | Pending

datatype 'a outcome = Fulfilled 'a | Failed string | Never

fun outcome_of :: "'a promise \<Rightarrow> 'a outcome" where
  "outcome_of (Resolved t v) = Fulfilled v"
| "outcome_of (Rejected t m) = Failed m"
| "outcome_of Pending = Never"

fun is_rejected :: "'a promise \<Rightarrow> bool" where
  "is_rejected (Rejected t m) = True"
| "is_rejected p = False"

text \<open>
  \<open>new Promise(resolve => setTimeout(() => resolve(true), ms))\<close> created at time \<open>now\<close>:
  the timer fires \<open>ms\<close> milliseconds later, or later still by the scheduler's \<open>lag\<close>.
\<close>

definition timer_promise :: "nat \<Rightarrow> nat \<Rightarrow> nat \<Rightarrow> bool promise" where
  "timer_promise now lag ms = Resolved (now + ms + lag) True"

text \<open>
  \<open>Promise.all([p, q])\<close>: fulfilled once both are, with both values; rejected as soon as
  one of them is rejected.
\<close>

fun promise_all :: "'a promise \<Rightarrow> 'b promise \<Rightarrow> ('a \<times> 'b) promise" where
  "promise_all (Resolved t a) (Resolved u b) = Resolved (max t u) (a, b)"
| "promise_all (Rejected t m) (Rejected u n) = (if t \<le> u then Rejected t m else Rejected u n)"
| "promise_all (Rejected t m) q = Rejected t m"
| "promise_all p (Rejected u n) = Rejected u n"
| "promise_all p q = Pending"

section \<open>The shared fetch state and the setter calls\<close>

record fetch_state =
  loading :: bool
  error :: string
  gifs :: jsval

text \<open>The three \<open>useState\<close> initial values of the provider.\<close>

definition initial_state :: fetch_state where
  "initial_state = \<lparr>loading = False, error = [], gifs = JArr []\<rparr>"

text \<open>What a handler does to the outside: the three setters and the HTTP request.\<close>

datatype effect =
    SetLoading bool
  | SetError string
  | SetGifs jsval
  | HttpGet string "(string \<times> jsval) list"

fun apply_effect :: "fetch_state \<Rightarrow> effect \<Rightarrow> fetch_state" where
  "apply_effect s (SetLoading b) = s\<lparr>loading := b\<rparr>"
| "apply_effect s (SetError m) = s\<lparr>error := m\<rparr>"
| "apply_effect s (SetGifs v) = s\<lparr>gifs := v\<rparr>"
| "apply_effect s (HttpGet url params) = s"

text \<open>
  One call of an async handler: the timed effects it performed, and either the time at
  which its promise settled or the fact that it is still awaiting.
\<close>

datatype run =
    Settled nat "(nat \<times> effect) list"
  | Hung "(nat \<times> effect) list"

fun events :: "run \<Rightarrow> (nat \<times> effect) list" where
  "events (Settled t evs) = evs"
| "events (Hung evs) = evs"


definition state_after :: "fetch_state \<Rightarrow> run \<Rightarrow> fetch_state" where
  "state_after s r = foldl apply_effect s (map snd (events r))"

text \<open>The state after each effect of a run, in order.\<close>

fun states_during :: "fetch_state \<Rightarrow> effect list \<Rightarrow> fetch_state list" where
  "states_during s [] = []"
| "states_during s (e # es) = apply_effect s e # states_during (apply_effect s e) es"

text \<open>The loading flag on screen after each timed effect of a run.\<close>

fun loading_shown :: "fetch_state \<Rightarrow> (nat \<times> effect) list \<Rightarrow> (nat \<times> bool) list" where
  "loading_shown s [] = []"
| "loading_shown s (te # evs) =
     (fst te, loading (apply_effect s (snd te))) # loading_shown (apply_effect s (snd te)) evs"

text \<open>Times at which a run switches the loading flag on, switches it off, commits items.\<close>

definition loading_on :: "run \<Rightarrow> nat list" where
  "loading_on r = map fst (filter (\<lambda>te. snd te = SetLoading True) (events r))"

definition loading_off :: "run \<Rightarrow> nat list" where
  "loading_off r = map fst (filter (\<lambda>te. snd te = SetLoading False) (events r))"

fun is_commit :: "effect \<Rightarrow> bool" where
  "is_commit (SetGifs v) = True"
| "is_commit e = False"

definition commit_times :: "run \<Rightarrow> nat list" where
  "commit_times r = map fst (filter (\<lambda>te. is_commit (snd te)) (events r))"

fun is_request :: "effect \<Rightarrow> bool" where
  "is_request (HttpGet url params) = True"
| "is_request e = False"

section \<open>The provider: GiphySearchContext.tsx\<close>

definition withMinDelay :: "nat \<Rightarrow> nat \<Rightarrow> 'a promise \<Rightarrow> nat \<Rightarrow> 'a promise" where
  "withMinDelay now lag promise delayTime =
     (let minDelay = timer_promise now lag delayTime in
      case promise_all promise minDelay of
        Resolved t (response, _) \<Rightarrow> Resolved t response
      | Rejected t m \<Rightarrow> Rejected t m
      | Pending \<Rightarrow> Pending)"

definition delayTime :: nat where
  "delayTime = 1000"

text \<open>
  \<open>reply\<close> is the promise \<open>axios.get\<close> returned for the request issued at \<open>now\<close>.
  The \<open>throw\<close> of the else branch lands in the \<open>catch\<close> of the same function.
\<close>

definition fetchTrendingGifs :: "jsval \<Rightarrow> nat \<Rightarrow> nat \<Rightarrow> response promise \<Rightarrow> run" where
  "fetchTrendingGifs API_KEY now lag reply =
     (let begun =
        [(now, SetLoading True),
         (now, HttpGet ''https://api.giphy.com/v1/gifs/trending''
                 [(''api_key'', API_KEY), (''limit'', JNum 50)])]
      in case withMinDelay now lag reply delayTime of
        Resolved t response \<Rightarrow>
          (if truthy (data response)
           then Settled t (begun @ [(t, SetGifs (get_data (data response))), (t, SetLoading False)])
           else Settled t (begun @
                  [(t, SetError (''Failed to fetch trending GIFs: '' @ ''No data when fetch trending GIFs'')),
                   (t, SetLoading False)]))
      | Rejected t m \<Rightarrow>
          Settled t (begun @
            [(t, SetError (''Failed to fetch trending GIFs: '' @ m)), (t, SetLoading False)])
      | Pending \<Rightarrow> Hung begun)"

definition handleSearch :: "jsval \<Rightarrow> string \<Rightarrow> nat \<Rightarrow> nat \<Rightarrow> response promise \<Rightarrow> run" where
  "handleSearch API_KEY query now lag reply =
     (let begun =
        [(now, HttpGet ''https://api.giphy.com/v1/gifs/search''
                 [(''api_key'', API_KEY), (''q'', JStr query), (''limit'', JNum 50)])]
      in case withMinDelay now lag reply delayTime of
        Resolved t response \<Rightarrow>
          (if truthy (data response)
           then Settled t (begun @ [(t, SetGifs (get_data (data response))), (t, SetLoading False)])
           else Settled t (begun @
                  [(t, SetError (''Failed to search for a GIF: '' @ ''No data when search for a GIF'')),
                   (t, SetLoading False)]))
      | Rejected t m \<Rightarrow>
          Settled t (begun @
            [(t, SetError (''Failed to search for a GIF: '' @ m)), (t, SetLoading False)])
      | Pending \<Rightarrow> Hung begun)"

definition clearError :: "nat \<Rightarrow> run" where
  "clearError now = Settled now [(now, SetError [])]"




section \<open>The standalone handlers: utils/minDelay.ts, handleSearch.ts, handleTrendingGifs.ts\<close>

text \<open>
  \<open>minDelay\<close> is a module constant: one promise, whose timer was started when the
  module was loaded, shared by every call of the two handlers.
\<close>

definition minDelay :: "nat \<Rightarrow> nat \<Rightarrow> bool promise" where
  "minDelay loaded lag = (let delayTime = 1000 in timer_promise loaded lag delayTime)"

text \<open>\<open>String.prototype.trim\<close> on code units below 256: TAB, LF, VT, FF, CR, SP, NBSP.\<close>

definition is_white_space :: "char \<Rightarrow> bool" where
  "is_white_space c = (of_char c \<in> {9, 10, 11, 12, 13, 32, 160 :: nat})"

definition trim :: "string \<Rightarrow> string" where
  "trim s = rev (dropWhile is_white_space (rev (dropWhile is_white_space s)))"

definition handleSearch_util ::
  "jsval \<Rightarrow> string \<Rightarrow> nat \<Rightarrow> nat \<Rightarrow> nat \<Rightarrow> response promise \<Rightarrow> run" where
  "handleSearch_util API_KEY query loaded lag now reply =
     (if trim query = [] then Settled now []
      else
        let begun =
          [(now, SetLoading True),
           (now, SetError []),
           (now, HttpGet ''https://api.giphy.com/v1/gifs/search''
                   [(''api_key'', API_KEY), (''q'', JStr query), (''limit'', JNum 50)])]
        in case promise_all reply (minDelay loaded lag) of
          Resolved t (response, _) \<Rightarrow>
            (if truthy (data response)
             then Settled t (begun @ [(t, SetGifs (get_data (data response))), (t, SetLoading False)])
             else Settled t (begun @ [(t, SetError ''Failed to fetch searched GIFS''), (t, SetLoading False)]))
        | Rejected t m \<Rightarrow>
            Settled t (begun @ [(t, SetError ''Failed to fetch searched GIFs''), (t, SetLoading False)])
        | Pending \<Rightarrow> Hung begun)"

definition handleTrendingGifs :: "jsval \<Rightarrow> nat \<Rightarrow> nat \<Rightarrow> nat \<Rightarrow> response promise \<Rightarrow> run" where
  "handleTrendingGifs API_KEY loaded lag now reply =
     (let begun =
        [(now, SetLoading True),
         (now, SetError []),
         (now, HttpGet ''https://api.giphy.com/v1/gifs/trending''
                 [(''api_key'', API_KEY), (''limit'', JNum 50)])]
      in case promise_all reply (minDelay loaded lag) of
        Resolved t (response, _) \<Rightarrow>
          (if truthy (data response)
           then Settled t (begun @ [(t, SetGifs (get_data (data response))), (t, SetLoading False)])
           else Settled t (begun @ [(t, SetError ''Failed to fetch trending GIFS''), (t, SetLoading False)]))
      | Rejected t m \<Rightarrow>
          Settled t (begun @ [(t, SetError ''Failed to fetch trending GIFs''), (t, SetLoading False)])
      | Pending \<Rightarrow> Hung begun)"

section \<open>The context lookup: hooks/useGiphySearchContext\<close>

text \<open>
  \<open>useContext\<close> yields the value of the nearest enclosing provider, or the default of
  \<open>createContext\<close>, here \<open>undefined\<close>. The enclosing providers are listed innermost
  first, each with the value it provides.
\<close>

definition useContext :: "'c option list \<Rightarrow> 'c option" where
  "useContext providers = (case providers of [] \<Rightarrow> None | v # outer \<Rightarrow> v)"

definition useGiphySearchContext :: "'c option list \<Rightarrow> string + 'c" where
  "useGiphySearchContext providers =
     (case useContext providers of
        None \<Rightarrow> Inl ''Context must be used with a GiphySearchContext''
      | Some context \<Rightarrow> Inr context)"

section \<open>The placeholder animator: hooks/useAnimatedPlaceHolder.ts\<close>

text \<open>The index is a JavaScript number: \<open>x % 0\<close> is \<open>NaN\<close>, and so is \<open>NaN + 1\<close>.\<close>

datatype jsnum = Num nat | NaN

fun js_succ :: "jsnum \<Rightarrow> jsnum" where
  "js_succ (Num n) = Num (n + 1)"
| "js_succ NaN = NaN"

fun js_rem :: "jsnum \<Rightarrow> nat \<Rightarrow> jsnum" where
  "js_rem (Num n) m = (if m = 0 then NaN else Num (n mod m))"
| "js_rem NaN m = NaN"

text \<open>\<open>phrases[index]\<close>; \<open>None\<close> is \<open>undefined\<close>.\<close>

fun phrase_at :: "string list \<Rightarrow> jsnum \<Rightarrow> string option" where
  "phrase_at phrases (Num i) = (if i < length phrases then Some (phrases ! i) else None)"
| "phrase_at phrases NaN = None"

text \<open>\<open>s.substring(0, n)\<close>: a negative end counts as 0, an end past the string as its length.\<close>

definition substring0 :: "string \<Rightarrow> int \<Rightarrow> string" where
  "substring0 s n = take (nat (max 0 n)) s"

record placeholder_state =
  placeholder :: string
  isDeleted :: bool
  index :: jsnum

text \<open>The three \<open>useState\<close> initial values of a freshly mounted hook.\<close>

definition mounted :: placeholder_state where
  "mounted = \<lparr>placeholder = [], isDeleted = False, index = Num 0\<rparr>"

definition pauseDuration :: nat where
  "pauseDuration = 1500"

text \<open>
  One run of the effect body on a rendered state: it arms a timer whose callback sets
  the next state, or sets the next state at once, or arms a timer whose callback throws
  (\<open>current\<close> is \<open>undefined\<close> and has no \<open>substring\<close>).
\<close>

datatype scheduled =
    After nat placeholder_state
  | AtOnce placeholder_state
  | AfterThrows nat

definition effect_body :: "string list \<Rightarrow> placeholder_state \<Rightarrow> scheduled" where
  "effect_body phrases s =
     (let current = phrase_at phrases (index s) in
      if \<not> isDeleted s \<and> current = Some (placeholder s)
      then After pauseDuration (s\<lparr>isDeleted := True\<rparr>)
      else if isDeleted s \<and> placeholder s = []
      then AtOnce (s\<lparr>index := js_rem (js_succ (index s)) (length phrases), isDeleted := False\<rparr>)
      else
        let speed = (if isDeleted s then 80 else 130) in
        case current of
          None \<Rightarrow> AfterThrows speed
        | Some c \<Rightarrow>
            After speed
              (s\<lparr>placeholder :=
                   (if isDeleted s
                    then substring0 c (int (length (placeholder s)) - 1)
                    else substring0 c (int (length (placeholder s)) + 1))\<rparr>))"

text \<open>
  The state rendered when the next timer fires: every change of state re-runs the
  effect, so a state set at once is followed by the next run without a timer in between.
  \<open>None\<close>: the callback threw and the state stays as it is for good.
\<close>

function tick :: "string list \<Rightarrow> placeholder_state \<Rightarrow> placeholder_state option" where
  "tick phrases s =
     (case effect_body phrases s of
        After ms s' \<Rightarrow> Some s'
      | AtOnce s' \<Rightarrow> tick phrases s'
      | AfterThrows ms \<Rightarrow> None)"
  by pat_completeness auto
termination
proof (relation "measure (\<lambda>(phrases, s). if isDeleted s \<and> placeholder s = [] then 1 else 0)")
  show "wf (measure (\<lambda>(phrases, s). if isDeleted s \<and> placeholder s = [] then 1 else (0::nat)))"
    by simp
next
  fix phrases :: "string list" and s s' :: placeholder_state
  assume "effect_body phrases s = AtOnce s'"
  then have "isDeleted s \<and> placeholder s = [] \<and> \<not> isDeleted s'"
    by (auto simp: effect_body_def Let_def split: if_splits option.splits)
  then show "((phrases, s'), (phrases, s)) \<in>
      measure (\<lambda>(phrases, s). if isDeleted s \<and> placeholder s = [] then 1 else (0::nat))"
    by simp
qed

text \<open>The state rendered after \<open>n\<close> timers have fired.\<close>

fun ticks :: "string list \<Rightarrow> nat \<Rightarrow> placeholder_state \<Rightarrow> placeholder_state option" where
  "ticks phrases 0 s = Some s"
| "ticks phrases (Suc n) s =
     (case ticks phrases n s of None \<Rightarrow> None | Some s' \<Rightarrow> tick phrases s')"

text \<open>The text shown at the start and after each of the first \<open>n\<close> timers.\<close>

definition visible :: "string list \<Rightarrow> nat \<Rightarrow> string option list" where
  "visible phrases n = map (\<lambda>k. map_option placeholder (ticks phrases k mounted)) [0..<Suc n]"

section \<open>What the handlers do, case by case\<close>

lemma withMinDelay_cases:
  "withMinDelay now lag p d =
     (case p of Resolved t v \<Rightarrow> Resolved (max t (now + d + lag)) v
              | Rejected t m \<Rightarrow> Rejected t m
              | Pending \<Rightarrow> Pending)"
  by (cases p) (simp_all add: withMinDelay_def timer_promise_def)

lemma fetchTrendingGifs_resolved:
  "fetchTrendingGifs API_KEY now lag (Resolved u response) =
     Settled (max u (now + delayTime + lag))
       ([(now, SetLoading True),
         (now, HttpGet ''https://api.giphy.com/v1/gifs/trending''
                 [(''api_key'', API_KEY), (''limit'', JNum 50)])] @
        (if truthy (data response)
         then [(max u (now + delayTime + lag), SetGifs (get_data (data response)))]
         else [(max u (now + delayTime + lag),
                SetError ''Failed to fetch trending GIFs: No data when fetch trending GIFs'')]) @
        [(max u (now + delayTime + lag), SetLoading False)])"
  by (simp add: fetchTrendingGifs_def withMinDelay_cases)

lemma fetchTrendingGifs_rejected:
  "fetchTrendingGifs API_KEY now lag (Rejected t m) =
     Settled t
       [(now, SetLoading True),
        (now, HttpGet ''https://api.giphy.com/v1/gifs/trending''
                [(''api_key'', API_KEY), (''limit'', JNum 50)]),
        (t, SetError (''Failed to fetch trending GIFs: '' @ m)),
        (t, SetLoading False)]"
  by (simp add: fetchTrendingGifs_def withMinDelay_cases)

lemma fetchTrendingGifs_pending:
  "fetchTrendingGifs API_KEY now lag Pending =
     Hung [(now, SetLoading True),
           (now, HttpGet ''https://api.giphy.com/v1/gifs/trending''
                   [(''api_key'', API_KEY), (''limit'', JNum 50)])]"
  by (simp add: fetchTrendingGifs_def withMinDelay_cases)

lemma handleSearch_resolved:
  "handleSearch API_KEY query now lag (Resolved u response) =
     Settled (max u (now + delayTime + lag))
       ([(now, HttpGet ''https://api.giphy.com/v1/gifs/search''
                 [(''api_key'', API_KEY), (''q'', JStr query), (''limit'', JNum 50)])] @
        (if truthy (data response)
         then [(max u (now + delayTime + lag), SetGifs (get_data (data response)))]
         else [(max u (now + delayTime + lag),
                SetError ''Failed to search for a GIF: No data when search for a GIF'')]) @
        [(max u (now + delayTime + lag), SetLoading False)])"
  by (simp add: handleSearch_def withMinDelay_cases)

lemma handleSearch_rejected:
  "handleSearch API_KEY query now lag (Rejected t m) =
     Settled t
       [(now, HttpGet ''https://api.giphy.com/v1/gifs/search''
                [(''api_key'', API_KEY), (''q'', JStr query), (''limit'', JNum 50)]),
        (t, SetError (''Failed to search for a GIF: '' @ m)),
        (t, SetLoading False)]"
  by (simp add: handleSearch_def withMinDelay_cases)

lemma handleSearch_pending:
  "handleSearch API_KEY query now lag Pending =
     Hung [(now, HttpGet ''https://api.giphy.com/v1/gifs/search''
                   [(''api_key'', API_KEY), (''q'', JStr query), (''limit'', JNum 50)])]"
  by (simp add: handleSearch_def withMinDelay_cases)

lemma minDelay_eq: "minDelay loaded lag = Resolved (loaded + 1000 + lag) True"
  by (simp add: minDelay_def timer_promise_def)

lemma handleSearch_util_resolved:
  "trim query \<noteq> [] \<Longrightarrow>
   handleSearch_util API_KEY query loaded lag now (Resolved u response) =
     Settled (max u (loaded + 1000 + lag))
       ([(now, SetLoading True),
         (now, SetError []),
         (now, HttpGet ''https://api.giphy.com/v1/gifs/search''
                 [(''api_key'', API_KEY), (''q'', JStr query), (''limit'', JNum 50)])] @
        (if truthy (data response)
         then [(max u (loaded + 1000 + lag), SetGifs (get_data (data response)))]
         else [(max u (loaded + 1000 + lag), SetError ''Failed to fetch searched GIFS'')]) @
        [(max u (loaded + 1000 + lag), SetLoading False)])"
  by (simp add: handleSearch_util_def minDelay_eq)

lemma handleSearch_util_rejected:
  "trim query \<noteq> [] \<Longrightarrow>
   handleSearch_util API_KEY query loaded lag now (Rejected t m) =
     Settled t
       [(now, SetLoading True),
        (now, SetError []),
        (now, HttpGet ''https://api.giphy.com/v1/gifs/search''
                [(''api_key'', API_KEY), (''q'', JStr query), (''limit'', JNum 50)]),
        (t, SetError ''Failed to fetch searched GIFs''),
        (t, SetLoading False)]"
  by (simp add: handleSearch_util_def minDelay_eq)

lemma handleTrendingGifs_rejected:
  "handleTrendingGifs API_KEY loaded lag now (Rejected t m) =
     Settled t
       [(now, SetLoading True),
        (now, SetError []),
        (now, HttpGet ''https://api.giphy.com/v1/gifs/trending''
                [(''api_key'', API_KEY), (''limit'', JNum 50)]),
        (t, SetError ''Failed to fetch trending GIFs''),
        (t, SetLoading False)]"
  by (simp add: handleTrendingGifs_def minDelay_eq)

section \<open>Search: the loading flag and the error (claim C1)\<close>

text \<open>
  The standalone \<open>handleSearch\<close> of utils/handleSearch.ts follows the protocol on every
  non-blank query: its first effect switches loading on, and it ends with loading off
  and either the fetched items with an empty error, or an error and the old items.
\<close>

lemma handleSearch_util_protocol:
  "trim query \<noteq> [] \<Longrightarrow>
   hd (events (handleSearch_util API_KEY query loaded lag now (Resolved u response)))
     = (now, SetLoading True)
   \<and> state_after s (handleSearch_util API_KEY query loaded lag now (Resolved u response))
     = (if truthy (data response)
        then \<lparr>loading = False, error = [], gifs = get_data (data response)\<rparr>
        else \<lparr>loading = False, error = ''Failed to fetch searched GIFS'', gifs = gifs s\<rparr>)
   \<and> hd (events (handleSearch_util API_KEY query loaded lag now (Rejected t m)))
     = (now, SetLoading True)
   \<and> state_after s (handleSearch_util API_KEY query loaded lag now (Rejected t m))
     = \<lparr>loading = False, error = ''Failed to fetch searched GIFs'', gifs = gifs s\<rparr>"
  by (simp add: handleSearch_util_resolved handleSearch_util_rejected state_after_def)

text \<open>The provider's \<open>handleSearch\<close> never switches loading on, whatever the reply.\<close>

lemma handleSearch_never_sets_loading:
  "loading_on (handleSearch API_KEY query now lag reply) = []"
  by (cases reply)
     (simp_all add: handleSearch_resolved handleSearch_rejected handleSearch_pending
        loading_on_def)

text \<open>
  Claim C1: for every non-blank query, \<open>searchGifs\<close> first sets loading to true and, once
  settled, has loading false with either the fetched items and an empty error, or an
  error and the old items. The provider's \<open>handleSearch\<close> does not: a search for
  \<open>dogs\<close> fails and leaves its message; the next search, for \<open>cats\<close>, issued at 2000 and
  answered at 2050 with one item, performs three effects, none of which switches
  loading on (the flag is false after each of them), and ends at 3000 with the new item
  stored and the old message still in place.
\<close>

theorem searchGifs_skips_loading_and_keeps_error:
  "state_after initial_state (handleSearch (JStr ''key'') ''dogs'' 0 0 (Rejected 40 ''Network Error''))
     = \<lparr>loading = False, error = ''Failed to search for a GIF: Network Error'', gifs = JArr []\<rparr>
   \<and> trim ''cats'' \<noteq> []
   \<and> handleSearch (JStr ''key'') ''cats'' 2000 0
        (Resolved 2050 \<lparr>data = JObj [(''data'', JArr [JObj [(''id'', JStr ''1'')]])]\<rparr>)
     = Settled 3000
         [(2000, HttpGet ''https://api.giphy.com/v1/gifs/search''
                   [(''api_key'', JStr ''key''), (''q'', JStr ''cats''), (''limit'', JNum 50)]),
          (3000, SetGifs (JArr [JObj [(''id'', JStr ''1'')]])),
          (3000, SetLoading False)]
   \<and> loading_on (handleSearch (JStr ''key'') ''cats'' 2000 0
        (Resolved 2050 \<lparr>data = JObj [(''data'', JArr [JObj [(''id'', JStr ''1'')]])]\<rparr>)) = []
   \<and> map loading (states_during
        \<lparr>loading = False, error = ''Failed to search for a GIF: Network Error'', gifs = JArr []\<rparr>
        (map snd (events (handleSearch (JStr ''key'') ''cats'' 2000 0
           (Resolved 2050 \<lparr>data = JObj [(''data'', JArr [JObj [(''id'', JStr ''1'')]])]\<rparr>)))))
     = [False, False, False]
   \<and> state_after
        \<lparr>loading = False, error = ''Failed to search for a GIF: Network Error'', gifs = JArr []\<rparr>
        (handleSearch (JStr ''key'') ''cats'' 2000 0
           (Resolved 2050 \<lparr>data = JObj [(''data'', JArr [JObj [(''id'', JStr ''1'')]])]\<rparr>))
     = \<lparr>loading = False, error = ''Failed to search for a GIF: Network Error'',
        gifs = JArr [JObj [(''id'', JStr ''1'')]]\<rparr>"
  by (simp add: handleSearch_resolved handleSearch_rejected state_after_def initial_state_def
        loading_on_def delayTime_def trim_def is_white_space_def)

section \<open>The minimum delay (claims C2 and C10)\<close>

text \<open>
  Claim C10: \<open>withMinDelay(p, d)\<close> is fulfilled with exactly the value \<open>p\<close> is fulfilled
  with, is rejected exactly when \<open>p\<close> is rejected (with the same error), and stays
  pending when \<open>p\<close> does.
\<close>

theorem withMinDelay_preserves_outcome:
  "outcome_of (withMinDelay now lag p d) = outcome_of p
   \<and> is_rejected (withMinDelay now lag p d) = is_rejected p"
  by (cases p) (simp_all add: withMinDelay_cases)

text \<open>
  In a call of \<open>fetchTrendingGifs\<close> or of the provider's \<open>handleSearch\<close> issued at \<open>now\<close>
  whose request is answered at \<open>u\<close>, the items are committed and loading is switched
  off at one time, the later of \<open>u\<close> and the firing of the 1000 ms timer started by the
  call: never before the answer and never less than 1000 ms after the call began.
\<close>

lemma min_delay_floor:
  "loading_on (fetchTrendingGifs API_KEY now lag (Resolved u response)) = [now]
   \<and> loading_off (fetchTrendingGifs API_KEY now lag (Resolved u response))
       = [max u (now + delayTime + lag)]
   \<and> commit_times (fetchTrendingGifs API_KEY now lag (Resolved u response))
       = (if truthy (data response) then [max u (now + delayTime + lag)] else [])
   \<and> loading_off (handleSearch API_KEY query now lag (Resolved u response))
       = [max u (now + delayTime + lag)]
   \<and> commit_times (handleSearch API_KEY query now lag (Resolved u response))
       = (if truthy (data response) then [max u (now + delayTime + lag)] else [])
   \<and> now + 1000 \<le> max u (now + delayTime + lag)
   \<and> u \<le> max u (now + delayTime + lag)"
  by (simp add: fetchTrendingGifs_resolved handleSearch_resolved loading_on_def loading_off_def
        commit_times_def delayTime_def)

text \<open>
  \<open>fetchTrendingGifs\<close> shows loading for that whole time: the flag is on from the call
  until the commit, whatever the state before.
\<close>

lemma fetchTrendingGifs_shows_loading:
  "loading_shown s (events (fetchTrendingGifs API_KEY now lag (Resolved u response)))
   = [(now, True), (now, True),
      (max u (now + delayTime + lag), True),
      (max u (now + delayTime + lag), False)]"
  by (simp add: fetchTrendingGifs_resolved)

text \<open>
  Claim C2: in every successful \<open>searchGifs\<close> or \<open>fetchTrendingGifs\<close> call the items
  are committed only after both the request and the 1000 ms delay have settled, so that
  the time from loading becoming true to loading becoming false is never below 1000 ms,
  however fast the request. The provider's \<open>handleSearch\<close> holds the items back but
  shows no loading at all: a search for \<open>cats\<close> issued at 2000 in the initial state and
  answered at 2001 commits its item at 3000, and the flag is false after each of its
  three effects, so loading is true for no time instead of 1000 ms.
\<close>

theorem searchGifs_delay_without_loading:
  "handleSearch (JStr ''key'') ''cats'' 2000 0
        (Resolved 2001 \<lparr>data = JObj [(''data'', JArr [JObj [(''id'', JStr ''1'')]])]\<rparr>)
     = Settled 3000
         [(2000, HttpGet ''https://api.giphy.com/v1/gifs/search''
                   [(''api_key'', JStr ''key''), (''q'', JStr ''cats''), (''limit'', JNum 50)]),
          (3000, SetGifs (JArr [JObj [(''id'', JStr ''1'')]])),
          (3000, SetLoading False)]
   \<and> loading initial_state = False
   \<and> loading_shown initial_state (events (handleSearch (JStr ''key'') ''cats'' 2000 0
        (Resolved 2001 \<lparr>data = JObj [(''data'', JArr [JObj [(''id'', JStr ''1'')]])]\<rparr>)))
     = [(2000, False), (3000, False), (3000, False)]
   \<and> loading_on (handleSearch (JStr ''key'') ''cats'' 2000 0
        (Resolved 2001 \<lparr>data = JObj [(''data'', JArr [JObj [(''id'', JStr ''1'')]])]\<rparr>)) = []
   \<and> loading_shown initial_state (events (fetchTrendingGifs (JStr ''key'') 2000 0
        (Resolved 2001 \<lparr>data = JObj [(''data'', JArr [JObj [(''id'', JStr ''1'')]])]\<rparr>)))
     = [(2000, True), (2000, True), (3000, True), (3000, False)]"
  by (simp add: handleSearch_resolved fetchTrendingGifs_resolved initial_state_def loading_on_def
        delayTime_def)

text \<open>
  The standalone handlers join the request with the one timer of utils/minDelay.ts
  instead. Once that timer has fired it delays nothing: with the module loaded at 0, a
  search issued at 5000 and answered at 5001 switches loading off at 5001.
\<close>

lemma shared_minDelay_gives_no_floor:
  "handleSearch_util (JStr ''key'') ''cats'' 0 0 5000
     (Resolved 5001 \<lparr>data = JObj [(''data'', JArr [])]\<rparr>) =
     Settled 5001
       [(5000, SetLoading True),
        (5000, SetError []),
        (5000, HttpGet ''https://api.giphy.com/v1/gifs/search''
                 [(''api_key'', JStr ''key''), (''q'', JStr ''cats''), (''limit'', JNum 50)]),
        (5001, SetGifs (JArr [])),
        (5001, SetLoading False)]"
  by (simp add: handleSearch_util_def minDelay_eq trim_def is_white_space_def)

section \<open>Loading and error after settled actions (claim C3)\<close>








text \<open>
  Inside a call the two do meet: a second \<open>fetchTrendingGifs\<close> switches loading on
  while the message of the first, failed one is still there.
\<close>

lemma loading_with_error_inside_a_call:
  "states_during
     \<lparr>loading = False, error = ''Failed to fetch trending GIFs: Network Error'', gifs = JArr []\<rparr>
     (map snd (events (fetchTrendingGifs (JStr ''key'') 5000 0 Pending)))
   = [\<lparr>loading = True, error = ''Failed to fetch trending GIFs: Network Error'', gifs = JArr []\<rparr>,
      \<lparr>loading = True, error = ''Failed to fetch trending GIFs: Network Error'', gifs = JArr []\<rparr>]"
  by (simp add: fetchTrendingGifs_pending)

section \<open>Blank queries (claim C4)\<close>

text \<open>
  The standalone \<open>handleSearch\<close> returns before any effect when the trimmed query is
  empty.
\<close>

lemma handleSearch_util_blank_noop:
  "trim query = [] \<Longrightarrow>
   events (handleSearch_util API_KEY query loaded lag now reply) = []
   \<and> state_after s (handleSearch_util API_KEY query loaded lag now reply) = s"
  by (simp add: handleSearch_util_def state_after_def)

text \<open>The provider's \<open>handleSearch\<close> sends its request for every query.\<close>

lemma handleSearch_always_requests:
  "hd (events (handleSearch API_KEY query now lag reply))
   = (now, HttpGet ''https://api.giphy.com/v1/gifs/search''
             [(''api_key'', API_KEY), (''q'', JStr query), (''limit'', JNum 50)])"
  by (cases reply)
     (simp_all add: handleSearch_resolved handleSearch_rejected handleSearch_pending)

text \<open>
  Claim C4: for a query that is empty after trimming, \<open>searchGifs\<close> does nothing: no
  fetch, no change of loading, error or items. The provider's \<open>handleSearch\<close> does
  not: given three spaces it sends the request with \<open>q\<close> of three spaces; when that is
  answered with an empty list the one item shown before is replaced by none, and when
  it is refused the error is set.
\<close>

theorem searchGifs_fetches_blank_query:
  "trim ''   '' = []
   \<and> handleSearch (JStr ''key'') ''   '' 0 0 (Resolved 50 \<lparr>data = JObj [(''data'', JArr [])]\<rparr>)
     = Settled 1000
         [(0, HttpGet ''https://api.giphy.com/v1/gifs/search''
                [(''api_key'', JStr ''key''), (''q'', JStr ''   ''), (''limit'', JNum 50)]),
          (1000, SetGifs (JArr [])),
          (1000, SetLoading False)]
   \<and> state_after \<lparr>loading = False, error = [], gifs = JArr [JObj [(''id'', JStr ''1'')]]\<rparr>
        (handleSearch (JStr ''key'') ''   '' 0 0 (Resolved 50 \<lparr>data = JObj [(''data'', JArr [])]\<rparr>))
     = \<lparr>loading = False, error = [], gifs = JArr []\<rparr>
   \<and> state_after \<lparr>loading = False, error = [], gifs = JArr [JObj [(''id'', JStr ''1'')]]\<rparr>
        (handleSearch (JStr ''key'') ''   '' 0 0 (Rejected 50 ''Request failed with status code 400''))
     = \<lparr>loading = False,
        error = ''Failed to search for a GIF: Request failed with status code 400'',
        gifs = JArr [JObj [(''id'', JStr ''1'')]]\<rparr>"
  by (simp add: handleSearch_resolved handleSearch_rejected state_after_def delayTime_def
        trim_def is_white_space_def)

section \<open>Failures (claims C5 and C6)\<close>

text \<open>
  Claim C5: when the request of a trending load is rejected, the call ends with loading
  false, the error set to the trending message and the items as they were; nothing else
  changes. This holds for the provider's \<open>fetchTrendingGifs\<close>, whose message ends with
  that of the rejection, and for the standalone \<open>handleTrendingGifs\<close>.
\<close>

theorem trending_rejection_keeps_items:
  "state_after s (fetchTrendingGifs API_KEY now lag (Rejected t m))
     = s\<lparr>loading := False, error := ''Failed to fetch trending GIFs: '' @ m\<rparr>
   \<and> gifs (state_after s (fetchTrendingGifs API_KEY now lag (Rejected t m))) = gifs s
   \<and> state_after s (handleTrendingGifs API_KEY loaded lag now (Rejected t m))
     = s\<lparr>loading := False, error := ''Failed to fetch trending GIFs''\<rparr>
   \<and> gifs (state_after s (handleTrendingGifs API_KEY loaded lag now (Rejected t m))) = gifs s"
  by (simp add: fetchTrendingGifs_rejected handleTrendingGifs_rejected state_after_def)

text \<open>A body that fails \<open>if (response.data)\<close> is treated as a failure by both actions.\<close>

lemma falsy_body_is_a_failure:
  "\<not> truthy (data response) \<Longrightarrow>
   state_after s (fetchTrendingGifs API_KEY now lag (Resolved u response))
     = s\<lparr>loading := False,
          error := ''Failed to fetch trending GIFs: No data when fetch trending GIFs''\<rparr>
   \<and> state_after s (handleSearch API_KEY query now lag (Resolved u response))
     = s\<lparr>loading := False,
          error := ''Failed to search for a GIF: No data when search for a GIF''\<rparr>"
  by (simp add: fetchTrendingGifs_resolved handleSearch_resolved state_after_def)

text \<open>
  Claim C6: a response whose body has no list under the key \<open>data\<close> makes the fetch
  fail: the error of its kind is set and the items are not replaced by a value that is
  no list. The provider tests the body, not its field: on a body that holds only a
  \<open>meta\<close> object both actions store \<open>undefined\<close> as the items and set no error.
\<close>

theorem body_without_data_is_committed:
  "truthy (JObj [(''meta'', JObj [(''status'', JNum 200)])])
   \<and> get_data (JObj [(''meta'', JObj [(''status'', JNum 200)])]) = JUndefined
   \<and> fetchTrendingGifs (JStr ''key'') 0 0
        (Resolved 50 \<lparr>data = JObj [(''meta'', JObj [(''status'', JNum 200)])]\<rparr>)
     = Settled 1000
         [(0, SetLoading True),
          (0, HttpGet ''https://api.giphy.com/v1/gifs/trending''
                [(''api_key'', JStr ''key''), (''limit'', JNum 50)]),
          (1000, SetGifs JUndefined),
          (1000, SetLoading False)]
   \<and> handleSearch (JStr ''key'') ''cats'' 0 0
        (Resolved 50 \<lparr>data = JObj [(''meta'', JObj [(''status'', JNum 200)])]\<rparr>)
     = Settled 1000
         [(0, HttpGet ''https://api.giphy.com/v1/gifs/search''
                [(''api_key'', JStr ''key''), (''q'', JStr ''cats''), (''limit'', JNum 50)]),
          (1000, SetGifs JUndefined),
          (1000, SetLoading False)]
   \<and> state_after initial_state
        (fetchTrendingGifs (JStr ''key'') 0 0
           (Resolved 50 \<lparr>data = JObj [(''meta'', JObj [(''status'', JNum 200)])]\<rparr>))
     = \<lparr>loading = False, error = [], gifs = JUndefined\<rparr>
   \<and> state_after initial_state
        (handleSearch (JStr ''key'') ''cats'' 0 0
           (Resolved 50 \<lparr>data = JObj [(''meta'', JObj [(''status'', JNum 200)])]\<rparr>))
     = \<lparr>loading = False, error = [], gifs = JUndefined\<rparr>
   \<and> \<not> is_list JUndefined"
  by (simp add: fetchTrendingGifs_resolved handleSearch_resolved state_after_def initial_state_def
        delayTime_def)

section \<open>Dismissing the error (claim C8)\<close>

text \<open>
  Claim C8: in every state, \<open>clearError\<close> sets the error to the empty string and leaves
  loading and the items as they are.
\<close>

theorem clearError_only_clears_error:
  "events (clearError now) = [(now, SetError [])]
   \<and> state_after s (clearError now) = s\<lparr>error := []\<rparr>
   \<and> error (state_after s (clearError now)) = []
   \<and> loading (state_after s (clearError now)) = loading s
   \<and> gifs (state_after s (clearError now)) = gifs s"
  by (simp add: clearError_def state_after_def)

section \<open>Looking the store up (claim C9)\<close>

text \<open>
  Claim C9: a lookup with no provider around it, or with a provider whose value is
  \<open>undefined\<close>, throws the error with the message of the hook and returns nothing;
  any other lookup returns the object the nearest provider holds.
\<close>

theorem useGiphySearchContext_fails_fast:
  "useGiphySearchContext [] = Inl ''Context must be used with a GiphySearchContext''
   \<and> useGiphySearchContext (None # outer) = Inl ''Context must be used with a GiphySearchContext''
   \<and> useGiphySearchContext (Some context # outer) = Inr context"
  by (simp add: useGiphySearchContext_def useContext_def)

section \<open>The placeholder animation (claim C7)\<close>

lemma cycle_start:
  "ticks [''ab'', ''cd''] (Suc 10) mounted = ticks [''ab'', ''cd''] (Suc 0) mounted"
  by code_simp

lemma cycle:
  "ticks [''ab'', ''cd''] (Suc (n + 10)) mounted = ticks [''ab'', ''cd''] (Suc n) mounted"
proof (induction n)
  case 0
  show ?case using cycle_start by simp
next
  case (Suc n)
  have "ticks [''ab'', ''cd''] (Suc (Suc n + 10)) mounted
        = (case ticks [''ab'', ''cd''] (Suc (n + 10)) mounted of
             None \<Rightarrow> None | Some s' \<Rightarrow> tick [''ab'', ''cd''] s')"
    by (simp only: ticks.simps add_Suc)
  also have "\<dots> = (case ticks [''ab'', ''cd''] (Suc n) mounted of
             None \<Rightarrow> None | Some s' \<Rightarrow> tick [''ab'', ''cd''] s')"
    by (simp only: Suc.IH)
  also have "\<dots> = ticks [''ab'', ''cd''] (Suc (Suc n)) mounted"
    by (simp only: ticks.simps)
  finally show ?case .
qed

lemma text_cycle:
  "map_option placeholder (ticks [''ab'', ''cd''] (n + 10) mounted)
   = map_option placeholder (ticks [''ab'', ''cd''] n mounted)"
proof (cases n)
  case 0
  have "map_option placeholder (ticks [''ab'', ''cd''] 10 mounted)
        = map_option placeholder (ticks [''ab'', ''cd''] 0 mounted)"
    by code_simp
  with 0 show ?thesis by simp
next
  case (Suc k)
  have "ticks [''ab'', ''cd''] (n + 10) mounted = ticks [''ab'', ''cd''] n mounted"
    unfolding Suc add_Suc by (rule cycle)
  then show ?thesis by (simp only:)
qed

text \<open>When the text has been deleted the index moves on at once, with no timer.\<close>

lemma index_advances:
  "effect_body phrases \<lparr>placeholder = [], isDeleted = True, index = Num i\<rparr>
   = AtOnce \<lparr>placeholder = [], isDeleted = False,
       index = (if phrases = [] then NaN else Num ((i + 1) mod length phrases))\<rparr>"
  by (simp add: effect_body_def)

text \<open>The three delays: typing, the hold on a full phrase, deleting.\<close>

lemma delays:
  "effect_body [''ab'', ''cd''] \<lparr>placeholder = ''a'', isDeleted = False, index = Num 0\<rparr>
     = After 130 \<lparr>placeholder = ''ab'', isDeleted = False, index = Num 0\<rparr>
   \<and> effect_body [''ab'', ''cd''] \<lparr>placeholder = ''ab'', isDeleted = False, index = Num 0\<rparr>
     = After 1500 \<lparr>placeholder = ''ab'', isDeleted = True, index = Num 0\<rparr>
   \<and> effect_body [''ab'', ''cd''] \<lparr>placeholder = ''ab'', isDeleted = True, index = Num 0\<rparr>
     = After 80 \<lparr>placeholder = ''a'', isDeleted = True, index = Num 0\<rparr>"
  by (simp add: effect_body_def pauseDuration_def substring0_def)

text \<open>
  Claim C7: on the phrases \<open>ab\<close> and \<open>cd\<close> a freshly mounted animator starts at index 0
  with empty text, and the text shown at the start and after each timer is the empty
  text, \<open>a\<close>, \<open>ab\<close>, \<open>ab\<close> again (the hold), \<open>a\<close>, empty, \<open>c\<close>, \<open>cd\<close>, \<open>cd\<close> again, \<open>c\<close>,
  empty, \<open>a\<close>, and so on for ever with period ten; each time the text has been deleted
  the index becomes the next one modulo the number of phrases.
\<close>

theorem placeholder_cycles:
  "visible [''ab'', ''cd''] 11
     = map Some ['''', ''a'', ''ab'', ''ab'', ''a'', '''', ''c'', ''cd'', ''cd'', ''c'', '''', ''a'']
   \<and> (\<forall>n. map_option placeholder (ticks [''ab'', ''cd''] (n + 10) mounted)
          = map_option placeholder (ticks [''ab'', ''cd''] n mounted))
   \<and> (\<forall>i. effect_body [''ab'', ''cd''] \<lparr>placeholder = [], isDeleted = True, index = Num i\<rparr>
          = AtOnce \<lparr>placeholder = [], isDeleted = False,
              index = Num ((i + 1) mod length [''ab'', ''cd''])\<rparr>)
   \<and> placeholder mounted = [] \<and> isDeleted mounted = False \<and> index mounted = Num 0"
proof -
  have seq: "visible [''ab'', ''cd''] 11
     = map Some ['''', ''a'', ''ab'', ''ab'', ''a'', '''', ''c'', ''cd'', ''cd'', ''c'', '''', ''a'']"
    by code_simp
  have adv: "effect_body [''ab'', ''cd''] \<lparr>placeholder = [], isDeleted = True, index = Num i\<rparr>
          = AtOnce \<lparr>placeholder = [], isDeleted = False,
              index = Num ((i + 1) mod length [''ab'', ''cd''])\<rparr>" for i
    by (simp add: index_advances)
  have init: "placeholder mounted = [] \<and> isDeleted mounted = False \<and> index mounted = Num 0"
    by (simp add: mounted_def)
  from seq text_cycle adv init show ?thesis by blast
qed

end
